theory Spec2Isabelle
  imports Main "HOL-Library.AList"
begin

section \<open>Python values\<close>

text \<open>
  The values the scripts exchange with the LLM endpoint and with the messaging platform
  are JSON documents decoded into Python objects. A decoded object (a \<open>dict\<close>) is an
  association list in insertion order, looked up with \<open>map_of\<close>; numbers are the
  integers. \<open>JNull\<close> is Python's \<open>None\<close>.
\<close>

datatype json =
    JNull
  | JBool bool
  | JNum int
  | JStr string
  | JArr "json list"
  | JObj "(string \<times> json) list"

type_synonym dict = "(string \<times> json) list"

text \<open>The exceptions the modelled functions raise or let through.\<close>

datatype py_error =
    Exception json
  | HTTPError nat
  | AttributeError
  | TypeError
  | KeyError string
  | UnboundLocalError string
  | ValueError string
  | AssertionError
  | SlackApiError json
  | OtherError string

text \<open>Python's truth value of a decoded JSON value (\<open>if v:\<close>).\<close>

fun truthy :: "json \<Rightarrow> bool" where
  "truthy JNull = False"
| "truthy (JBool b) = b"
| "truthy (JNum n) = (n \<noteq> 0)"
| "truthy (JStr s) = (s \<noteq> [])"
| "truthy (JArr xs) = (xs \<noteq> [])"
| "truthy (JObj kvs) = (kvs \<noteq> [])"

text \<open>\<open>isinstance(v, dict)\<close>.\<close>

fun is_dict :: "json \<Rightarrow> bool" where
  "is_dict (JObj kvs) = True"
| "is_dict JNull = False"
| "is_dict (JBool b) = False"
| "is_dict (JNum n) = False"
| "is_dict (JStr s) = False"
| "is_dict (JArr xs) = False"

text \<open>\<open>k in d\<close>, \<open>d.get(k, default)\<close>, \<open>d[k]\<close> and \<open>d[k] = v\<close> on a dict.\<close>

definition dict_contains :: "dict \<Rightarrow> string \<Rightarrow> bool" where
  "dict_contains d k = (map_of d k \<noteq> None)"

definition dict_get :: "dict \<Rightarrow> string \<Rightarrow> json \<Rightarrow> json" where
  "dict_get d k dflt = (case map_of d k of None \<Rightarrow> dflt | Some v \<Rightarrow> v)"

definition dict_getitem :: "dict \<Rightarrow> string \<Rightarrow> py_error + json" where
  "dict_getitem d k = (case map_of d k of None \<Rightarrow> Inl (KeyError k) | Some v \<Rightarrow> Inr v)"

definition dict_setitem :: "dict \<Rightarrow> string \<Rightarrow> json \<Rightarrow> dict" where
  "dict_setitem d k v = AList.update k v d"

text \<open>\<open>xs.insert(i, x)\<close> for an index \<open>i \<ge> 0\<close>: past the end it appends.\<close>

definition list_insert :: "nat \<Rightarrow> 'a \<Rightarrow> 'a list \<Rightarrow> 'a list" where
  "list_insert i x xs = take i xs @ x # drop i xs"

section \<open>The LLM chat client (llmInteract.py)\<close>

definition system_message :: json where
  "system_message = JObj
     [(''role'', JStr ''system''),
      (''content'', JStr (''Messages coming to you will have the format: <user id>:<message>. ''
         @ ''Your name is BeeBrain and you are slack chat bot. ''
         @ ''Keep answers as short as possible, friendly. ''
         @ ''You can reply without saying your name.''))]"

definition chat_url :: string where
  "chat_url = ''http://0.0.0.0:11434/api/chat''"

definition chat_model :: string where
  "chat_model = ''llama3.1:latest''"

text \<open>
  The streamed HTTP response: its status code and the lines \<open>r.iter_lines()\<close> yields,
  each given as the object \<open>json.loads(line)\<close> decodes it to (the decoding itself is
  not modelled).
\<close>

record http_response =
  status_code :: nat
  iter_lines :: "dict list"

text \<open>\<open>r.raise_for_status()\<close>: requests raises for a 4xx or 5xx status.\<close>

definition raise_for_status :: "http_response \<Rightarrow> py_error + unit" where
  "raise_for_status r =
     (if 400 \<le> status_code r \<and> status_code r < 600 then Inl (HTTPError (status_code r))
      else Inr ())"

text \<open>
  Lines 31 to 34 of \<open>chat\<close>, the branch \<open>body.get("done") is False\<close>. The locals are
  \<open>output\<close> and \<open>message\<close>; \<open>message\<close> is \<open>None\<close> while the variable is unbound. A
  \<open>message\<close> that is not a dict has no \<open>get\<close> (AttributeError, also for the default
  \<open>""\<close>), and \<open>output += content\<close> needs a string (TypeError).
\<close>

definition accumulate :: "string \<Rightarrow> dict option \<Rightarrow> dict \<Rightarrow> py_error + (string \<times> dict option)" where
  "accumulate output message body =
     (if dict_get body ''done'' JNull = JBool False then
        (case dict_get body ''message'' (JStr []) of
           JObj m \<Rightarrow>
             (case dict_get m ''content'' (JStr []) of
                JStr content \<Rightarrow> Inr (output @ content, Some m)
              | _ \<Rightarrow> Inl TypeError)
         | _ \<Rightarrow> Inl AttributeError)
      else Inr (output, message))"

text \<open>
  The loop over the lines (lines 27 to 39). When the lines run out without a frame whose
  \<open>done\<close> is true, the function falls off its end and returns \<open>None\<close>.
\<close>

fun chat_lines :: "string \<Rightarrow> dict option \<Rightarrow> dict list \<Rightarrow> py_error + json" where
  "chat_lines output message [] = Inr JNull"
| "chat_lines output message (body # lines) =
     (if dict_contains body ''error'' then
        (case dict_getitem body ''error'' of Inl e \<Rightarrow> Inl e | Inr v \<Rightarrow> Inl (Exception v))
      else
        (case accumulate output message body of
           Inl e \<Rightarrow> Inl e
         | Inr (output', message') \<Rightarrow>
             if truthy (dict_get body ''done'' (JBool False)) then
               (case message' of
                  None \<Rightarrow> Inl (UnboundLocalError ''message'')
                | Some m \<Rightarrow> dict_getitem (dict_setitem m ''content'' (JStr output')) ''content'')
             else chat_lines output' message' lines))"

text \<open>
  What a call of \<open>chat\<close> leaves behind besides its result: the contents of the caller's
  list object \<open>messages\<close> after the call, and the HTTP requests issued (URL and JSON body).
\<close>

record chat_effects =
  caller_messages :: "json list"
  posted :: "(string \<times> json) list"

definition chat :: "(string \<Rightarrow> json \<Rightarrow> http_response) \<Rightarrow> json list \<Rightarrow> chat_effects \<times> (py_error + json)" where
  "chat post messages =
     (let messages' = list_insert 0 system_message messages;
          payload = JObj [(''model'', JStr chat_model), (''messages'', JArr messages'),
                          (''stream'', JBool True)];
          r = post chat_url payload
      in (\<lparr>caller_messages = messages', posted = [(chat_url, payload)]\<rparr>,
          case raise_for_status r of
            Inl e \<Rightarrow> Inl e
          | Inr _ \<Rightarrow> chat_lines [] None (iter_lines r)))"

section \<open>Thread history (slack_utilities.py)\<close>

text \<open>
  An f-string field \<open>{v}\<close> renders a string as itself. How Python renders the other
  values (\<open>str\<close> of \<open>None\<close>, a number, a list) is left to the parameter \<open>render\<close>.
\<close>

fun fstring_field :: "(json \<Rightarrow> string) \<Rightarrow> json \<Rightarrow> string" where
  "fstring_field render (JStr s) = s"
| "fstring_field render v = render v"

text \<open>
  The list comprehension of line 33 over the replies. An item that is not a dict has no
  \<open>get\<close>.
\<close>

fun message_list :: "(json \<Rightarrow> string) \<Rightarrow> json list \<Rightarrow> py_error + json list" where
  "message_list render [] = Inr []"
| "message_list render (JObj item # items) =
     (case message_list render items of
        Inl e \<Rightarrow> Inl e
      | Inr ms \<Rightarrow>
          Inr (JObj [(''role'', JStr ''user''),
                     (''content'', JStr (fstring_field render (dict_get item ''user'' (JStr []))
                        @ '': '' @ fstring_field render (dict_get item ''text'' (JStr []))))] # ms))"
| "message_list render (v # items) = Inl AttributeError"

text \<open>
  Lines 30 to 35, the rest of the \<open>try\<close> body once the platform has answered. \<open>len\<close>
  of \<open>None\<close>, a boolean or a number raises TypeError; iterating a string or a dict
  yields strings, which have no \<open>get\<close>.
\<close>

fun thread_messages :: "(json \<Rightarrow> string) \<Rightarrow> json \<Rightarrow> py_error + json list" where
  "thread_messages render (JArr messages) = message_list render messages"
| "thread_messages render (JStr s) = (if s = [] then Inr [] else Inl AttributeError)"
| "thread_messages render (JObj kvs) = (if kvs = [] then Inr [] else Inl AttributeError)"
| "thread_messages render v = Inl TypeError"

text \<open>
  The handler \<open>except SlackApiError as e: assert e.response["error"]\<close>, shared by
  \<open>fetch_thread_message\<close> and \<open>remove_reaction\<close>. \<open>SlackApiError v\<close> carries the value
  \<open>v\<close> that \<open>e.response["error"]\<close> evaluates to; every other exception passes through.
\<close>

definition except_SlackApiError :: "py_error + 'a \<Rightarrow> 'a \<Rightarrow> py_error + 'a" where
  "except_SlackApiError attempt fallback =
     (case attempt of
        Inr v \<Rightarrow> Inr v
      | Inl (SlackApiError err) \<Rightarrow> if truthy err then Inr fallback else Inl AssertionError
      | Inl e \<Rightarrow> Inl e)"

text \<open>
  \<open>fetch_thread_message\<close>. The platform call \<open>client.conversations_replies\<close> is the
  parameter \<open>conversations_replies channel ts limit cursor\<close>: it answers with the
  response object or raises.
\<close>

definition fetch_thread_message ::
  "(json \<Rightarrow> string) \<Rightarrow> (json \<Rightarrow> json \<Rightarrow> nat \<Rightarrow> json \<Rightarrow> py_error + dict) \<Rightarrow>
   json \<Rightarrow> json \<Rightarrow> nat \<Rightarrow> py_error + json list" where
  "fetch_thread_message render conversations_replies channel thread_ts max_messages =
     (let cursor = JNull in
      except_SlackApiError
        (case conversations_replies channel thread_ts max_messages cursor of
           Inl e \<Rightarrow> Inl e
         | Inr response \<Rightarrow> thread_messages render (dict_get response ''messages'' (JArr [])))
        [])"

section \<open>The bot service (beebrain_app.py)\<close>

text \<open>The external services the bot talks to.\<close>

record services =
  str_of :: "json \<Rightarrow> string"
  conversations_replies :: "json \<Rightarrow> json \<Rightarrow> nat \<Rightarrow> json \<Rightarrow> py_error + dict"
  llm_post :: "string \<Rightarrow> json \<Rightarrow> http_response"
  chat_postMessage :: "json \<Rightarrow> json \<Rightarrow> json \<Rightarrow> py_error + json"
  reactions_remove :: "json \<Rightarrow> json \<Rightarrow> string \<Rightarrow> py_error + json"

text \<open>
  The calls a handler makes, in order: \<open>utils.fetch_thread_message(slack_client, channel,
  ts)\<close>, \<open>chat(history)\<close>, \<open>slack_client.chat_postMessage(channel, text, thread_ts)\<close>
  and \<open>remove_reaction(channel, ts, reaction)\<close>.
\<close>

datatype call =
    Fetch_thread_message json json
  | Chat "json list"
  | Chat_postMessage json json json
  | Remove_reaction json json string

definition remove_reaction ::
  "(json \<Rightarrow> json \<Rightarrow> string \<Rightarrow> py_error + json) \<Rightarrow> json \<Rightarrow> json \<Rightarrow> string \<Rightarrow> py_error + json" where
  "remove_reaction reactions_remove_call channel ts reaction =
     except_SlackApiError (reactions_remove_call channel ts reaction) JNull"

text \<open>
  \<open>handle_messages(body, say)\<close>: the calls made and how the handler ends. \<open>body\<close> is the
  event envelope, a dict; an \<open>event\<close> entry that is not a dict has no \<open>get\<close>.
\<close>

definition handle_thread :: "services \<Rightarrow> dict \<Rightarrow> json \<Rightarrow> call list \<times> (py_error + unit)" where
  "handle_thread env event channel =
     (let parent_ts = dict_get event ''thread_ts'' (JStr []);
          timestamp = dict_get event ''ts'' (JStr []);
          emoji = ''eyes''
      in case fetch_thread_message (str_of env) (conversations_replies env) channel parent_ts 50 of
           Inl e \<Rightarrow> ([Fetch_thread_message channel parent_ts], Inl e)
         | Inr history \<Rightarrow>
            (case snd (chat (llm_post env) history) of
               Inl e \<Rightarrow> ([Fetch_thread_message channel parent_ts, Chat history], Inl e)
             | Inr response \<Rightarrow>
                (case chat_postMessage env channel response parent_ts of
                   Inl e \<Rightarrow>
                     ([Fetch_thread_message channel parent_ts, Chat history,
                       Chat_postMessage channel response parent_ts], Inl e)
                 | Inr posted_ok \<Rightarrow>
                     ([Fetch_thread_message channel parent_ts, Chat history,
                       Chat_postMessage channel response parent_ts,
                       Remove_reaction channel timestamp emoji],
                      case remove_reaction (reactions_remove env) channel timestamp emoji of
                        Inl e \<Rightarrow> Inl e
                      | Inr removed \<Rightarrow> Inr ()))))"

definition handle_messages :: "services \<Rightarrow> dict \<Rightarrow> call list \<times> (py_error + unit)" where
  "handle_messages env body =
     (case dict_get body ''event'' (JObj []) of
        JObj event \<Rightarrow>
          (let channel = dict_get event ''channel'' (JStr []) in
           if dict_contains event ''thread_ts'' then handle_thread env event channel
           else ([], Inr ()))
      | _ \<Rightarrow> ([], Inl AttributeError))"

text \<open>
  The root route \<open>index()\<close>. \<open>data\<close> is the posted JSON object; \<open>handler.handle(request)\<close>
  is the parameter \<open>handler_handle\<close>, which dispatches the event and yields the calls its
  listeners make together with the HTTP response.
\<close>

datatype 'r flask_response = Jsonify json | Handled 'r

definition index :: "(dict \<Rightarrow> call list \<times> 'r) \<Rightarrow> dict \<Rightarrow> call list \<times> 'r flask_response" where
  "index handler_handle data =
     (if truthy (dict_get data ''challenge'' (JBool False)) then
        ([], Jsonify (JObj [(''challenge'', dict_get data ''challenge'' JNull)]))
      else (case handler_handle data of (calls, response) \<Rightarrow> (calls, Handled response)))"

section \<open>The tool-schema generator (AiToolTag.py)\<close>

text \<open>
  A function object as the generator sees it: \<open>__name__\<close>, the attribute
  \<open>_aitool_description\<close> (\<open>None\<close> when the function has none), the parameter names of
  \<open>inspect.signature\<close> in declaration order, and the dict \<open>get_type_hints\<close> returns
  (the return annotation under the key \<open>return\<close>).
\<close>

datatype py_type = PyClass string | PyTyping string

text \<open>
  \<open>str\<close> of a type: a class prints as \<open><class 'name'>\<close>, a construct of the
  \<open>typing\<close> module as its own text.
\<close>

fun str_of_type :: "py_type \<Rightarrow> string" where
  "str_of_type (PyClass n) = ''<class '' @ [CHR 0x27] @ n @ [CHR 0x27] @ ''>''"
| "str_of_type (PyTyping t) = t"

record py_function =
  func_name :: string
  aitool_description :: "string option"
  signature_parameters :: "string list"
  type_hints :: "(string \<times> py_type) list"

text \<open>
  The decorator \<open>@aitool(description)\<close>: the wrapper keeps the name, the signature and the
  annotations of the wrapped function (\<open>functools.wraps\<close>) and gets the description.
\<close>

definition aitool :: "string \<Rightarrow> py_function \<Rightarrow> py_function" where
  "aitool description func = func\<lparr>aitool_description := Some description\<rparr>"

subsection \<open>json.dumps with an indent\<close>

definition hex_digit :: "nat \<Rightarrow> char" where
  "hex_digit n = ''0123456789abcdef'' ! (n mod 16)"

text \<open>
  The encoder's string escapes (\<open>ensure_ascii\<close> is on): the quote, the backslash and the
  control characters; everything outside the printable ASCII range goes out as
  \<open>\u00XX\<close>. Strings are byte strings here, so a character stands for its own code.
\<close>

definition escape_char :: "char \<Rightarrow> string" where
  "escape_char c =
     (if c = CHR 0x22 then [CHR 0x5C, CHR 0x22]
      else if c = CHR 0x5C then [CHR 0x5C, CHR 0x5C]
      else if c = CHR 0x0A then [CHR 0x5C, CHR ''n'']
      else if c = CHR 0x0D then [CHR 0x5C, CHR ''r'']
      else if c = CHR 0x09 then [CHR 0x5C, CHR ''t'']
      else if c = CHR 0x0C then [CHR 0x5C, CHR ''f'']
      else if c = CHR 0x08 then [CHR 0x5C, CHR ''b'']
      else if (of_char c :: nat) < 32 \<or> 126 < (of_char c :: nat) then
        [CHR 0x5C, CHR ''u'', CHR ''0'', CHR ''0'',
         hex_digit (of_char c div 16), hex_digit (of_char c)]
      else [c])"

definition encode_basestring_ascii :: "string \<Rightarrow> string" where
  "encode_basestring_ascii s = CHR 0x22 # concat (map escape_char s) @ [CHR 0x22]"

fun digits :: "nat \<Rightarrow> string" where
  "digits n = (if n < 10 then [hex_digit n] else digits (n div 10) @ [hex_digit (n mod 10)])"

definition int_repr :: "int \<Rightarrow> string" where
  "int_repr i = (if i < 0 then CHR ''-'' # digits (nat (- i)) else digits (nat i))"

fun join :: "string \<Rightarrow> string list \<Rightarrow> string" where
  "join sep [] = []"
| "join sep [x] = x"
| "join sep (x # y # ys) = x @ sep @ join sep (y # ys)"

definition newline_indent :: "nat \<Rightarrow> nat \<Rightarrow> string" where
  "newline_indent indent level = CHR 0x0A # replicate (indent * level) CHR '' ''"

text \<open>
  The encoder at nesting depth \<open>level\<close>: an empty list or dict stays on one line, the
  members of the others go one per line, \<open>indent\<close> spaces deeper, separated by a comma,
  key and value by a colon and a space.
\<close>

fun dumps_at :: "nat \<Rightarrow> nat \<Rightarrow> json \<Rightarrow> string" where
  "dumps_at indent level JNull = ''null''"
| "dumps_at indent level (JBool b) = (if b then ''true'' else ''false'')"
| "dumps_at indent level (JNum i) = int_repr i"
| "dumps_at indent level (JStr s) = encode_basestring_ascii s"
| "dumps_at indent level (JArr xs) =
     (if xs = [] then ''[]''
      else ''['' @ newline_indent indent (Suc level)
           @ join ('','' @ newline_indent indent (Suc level))
               (map (dumps_at indent (Suc level)) xs)
           @ newline_indent indent level @ '']'')"
| "dumps_at indent level (JObj kvs) =
     (if kvs = [] then ''{}''
      else ''{'' @ newline_indent indent (Suc level)
           @ join ('','' @ newline_indent indent (Suc level))
               (map (\<lambda>(k, v). encode_basestring_ascii k @ '': '' @ dumps_at indent (Suc level) v) kvs)
           @ newline_indent indent level @ ''}'')"

definition dumps :: "json \<Rightarrow> nat \<Rightarrow> string" where
  "dumps obj indent = dumps_at indent 0 obj"

subsection \<open>generate\_json\_description\<close>

text \<open>Lines 23 to 29: one \<open>param_info\<close> dict per parameter.\<close>

definition param_info :: "(string \<times> py_type) list \<Rightarrow> string \<Rightarrow> dict" where
  "param_info hints name =
     [(''name'', JStr name),
      (''type'', JStr (case map_of hints name of None \<Rightarrow> ''Any'' | Some t \<Rightarrow> str_of_type t))]"

text \<open>Line 40: the dict comprehension over \<open>params\<close>; a later equal key overwrites.\<close>

definition properties :: "dict list \<Rightarrow> dict" where
  "properties params =
     foldl (\<lambda>d param.
        case dict_get param ''name'' JNull of
          JStr k \<Rightarrow> dict_setitem d k (dict_get param ''type'' JNull)
        | _ \<Rightarrow> d) [] params"

text \<open>Lines 20 to 45: the descriptor of a function that carries the description \<open>text\<close>.\<close>

definition description :: "py_function \<Rightarrow> string \<Rightarrow> json" where
  "description func text =
     (let params = map (param_info (type_hints func)) (signature_parameters func);
          return_type = (case map_of (type_hints func) ''return'' of
                           None \<Rightarrow> ''Any'' | Some t \<Rightarrow> str_of_type t)
      in JObj
        [(''type'', JStr ''function''),
         (''function'', JObj
            [(''name'', JStr (func_name func)),
             (''description'', JStr text),
             (''parameters'', JObj
                [(''type'', JStr ''object''),
                 (''properties'', JObj (properties params))]),
             (''input_params'', JArr (map JObj params)),
             (''output_type'', JStr return_type)])])"

definition generate_json_description :: "py_function \<Rightarrow> py_error + string" where
  "generate_json_description func =
     (case aitool_description func of
        None \<Rightarrow> Inl (ValueError (''Function '' @ func_name func @ '' is not tagged with @AITool''))
      | Some text \<Rightarrow> Inr (dumps (description func text) 2))"

text \<open>The example of lines 50 to 52: \<open>def add(a: int, b: int) -> int\<close>, then tagged.\<close>

definition add_untagged :: py_function where
  "add_untagged =
     \<lparr>func_name = ''add'', aitool_description = None,
      signature_parameters = [''a'', ''b''],
      type_hints = [(''a'', PyClass ''int''), (''b'', PyClass ''int''), (''return'', PyClass ''int'')]\<rparr>"

definition add :: py_function where
  "add = aitool ''Adds two numbers and returns the result'' add_untagged"

text \<open>Reading a field of a nested object by its path of keys.\<close>

fun at_path :: "json \<Rightarrow> string list \<Rightarrow> json option" where
  "at_path v [] = Some v"
| "at_path (JObj kvs) (k # ks) = (case map_of kvs k of None \<Rightarrow> None | Some v \<Rightarrow> at_path v ks)"
| "at_path v (k # ks) = None"

section \<open>Inputs of the statements\<close>

text \<open>
  A fragment frame is a streamed frame without an \<open>error\<close> field whose \<open>done\<close> is
  \<open>false\<close> and whose \<open>message\<close> is an object with a text \<open>content\<close> (or none);
  \<open>fragment\<close> is that text. A final frame has no \<open>error\<close> field and a true \<open>done\<close>.
\<close>

definition fragment_frame :: "dict \<Rightarrow> bool" where
  "fragment_frame body =
     (\<not> dict_contains body ''error'' \<and> map_of body ''done'' = Some (JBool False) \<and>
      (case map_of body ''message'' of
         Some (JObj m) \<Rightarrow>
           (case map_of m ''content'' of None \<Rightarrow> True | Some (JStr c) \<Rightarrow> True | _ \<Rightarrow> False)
       | _ \<Rightarrow> False))"

definition fragment :: "dict \<Rightarrow> string" where
  "fragment body =
     (case map_of body ''message'' of
        Some (JObj m) \<Rightarrow> (case map_of m ''content'' of Some (JStr c) \<Rightarrow> c | _ \<Rightarrow> [])
      | _ \<Rightarrow> [])"

definition final_frame :: "dict \<Rightarrow> bool" where
  "final_frame body =
     (\<not> dict_contains body ''error'' \<and> truthy (dict_get body ''done'' (JBool False)))"

text \<open>The test of line 31: the frame's \<open>done\<close> is the value \<open>False\<close>.\<close>

definition done_is_False :: "dict \<Rightarrow> bool" where
  "done_is_False body = (dict_get body ''done'' JNull = JBool False)"

text \<open>Services that give the same answer to every request.\<close>

definition answering :: "http_response \<Rightarrow> string \<Rightarrow> json \<Rightarrow> http_response" where
  "answering r url payload = r"

definition replying :: "py_error + dict \<Rightarrow> json \<Rightarrow> json \<Rightarrow> nat \<Rightarrow> json \<Rightarrow> py_error + dict" where
  "replying r channel ts limit cursor = r"

definition acknowledging :: "py_error + json \<Rightarrow> json \<Rightarrow> json \<Rightarrow> 'a \<Rightarrow> py_error + json" where
  "acknowledging r channel ts x = r"

definition dispatching :: "call list \<times> 'r \<Rightarrow> dict \<Rightarrow> call list \<times> 'r" where
  "dispatching r data = r"

definition render_none :: "json \<Rightarrow> string" where
  "render_none v = ''None''"

text \<open>The kinds of calls in a handler's trace.\<close>

fun is_fetch :: "call \<Rightarrow> bool" where
  "is_fetch (Fetch_thread_message channel ts) = True"
| "is_fetch c = False"

fun is_chat :: "call \<Rightarrow> bool" where
  "is_chat (Chat history) = True"
| "is_chat c = False"

fun is_post :: "call \<Rightarrow> bool" where
  "is_post (Chat_postMessage channel text ts) = True"
| "is_post c = False"

text \<open>Whether a call returned a dict.\<close>

fun returns_dict :: "py_error + json \<Rightarrow> bool" where
  "returns_dict (Inr v) = is_dict v"
| "returns_dict (Inl e) = False"

section \<open>The chat loop\<close>

lemma getitem_setitem: "dict_getitem (dict_setitem m k v) k = Inr v"
  by (simp add: dict_getitem_def dict_setitem_def update_conv')

lemma accumulate_fragment:
  assumes "fragment_frame body"
  shows "\<exists>m. accumulate out msg body = Inr (out @ fragment body, Some m)"
proof -
  from assms have d: "dict_get body ''done'' JNull = JBool False"
    by (simp add: fragment_frame_def dict_get_def)
  from assms obtain m where m: "map_of body ''message'' = Some (JObj m)"
    by (auto simp: fragment_frame_def split: option.splits json.splits)
  with assms have c: "map_of m ''content'' = None \<or> (\<exists>c. map_of m ''content'' = Some (JStr c))"
    by (auto simp: fragment_frame_def split: option.splits json.splits)
  from m have gm: "dict_get body ''message'' (JStr []) = JObj m"
    by (simp add: dict_get_def)
  from c show ?thesis
  proof
    assume "map_of m ''content'' = None"
    then show ?thesis using d gm m
      by (simp add: accumulate_def fragment_def dict_get_def)
  next
    assume "\<exists>c. map_of m ''content'' = Some (JStr c)"
    then obtain c where "map_of m ''content'' = Some (JStr c)" by blast
    then show ?thesis using d gm m
      by (simp add: accumulate_def fragment_def dict_get_def)
  qed
qed

lemma fragment_not_done:
  "fragment_frame body \<Longrightarrow> \<not> truthy (dict_get body ''done'' (JBool False))"
  by (simp add: fragment_frame_def dict_get_def)

lemma chat_lines_fragment:
  assumes "fragment_frame body"
  shows "\<exists>m. chat_lines out msg (body # lines) = chat_lines (out @ fragment body) (Some m) lines"
proof -
  from accumulate_fragment [OF assms] obtain m where
    "accumulate out msg body = Inr (out @ fragment body, Some m)" by blast
  moreover have "\<not> dict_contains body ''error''" using assms by (simp add: fragment_frame_def)
  ultimately show ?thesis using fragment_not_done [OF assms] by auto
qed

lemma chat_lines_fragments:
  "\<forall>f\<in>set frames. fragment_frame f \<Longrightarrow> frames \<noteq> [] \<Longrightarrow>
   \<exists>m. chat_lines out msg (frames @ lines) = chat_lines (out @ concat (map fragment frames)) (Some m) lines"
proof (induction frames arbitrary: out msg)
  case Nil
  then show ?case by simp
next
  case (Cons f fs)
  from Cons.prems have ff: "fragment_frame f" by simp
  from chat_lines_fragment [OF ff] obtain m where
    step: "chat_lines out msg (f # (fs @ lines)) = chat_lines (out @ fragment f) (Some m) (fs @ lines)"
    by blast
  show ?case
  proof (cases "fs = []")
    case True
    with step show ?thesis by auto
  next
    case False
    with Cons.IH [of "out @ fragment f" "Some m"] Cons.prems obtain m' where
      "chat_lines (out @ fragment f) (Some m) (fs @ lines) =
       chat_lines ((out @ fragment f) @ concat (map fragment fs)) (Some m') lines" by auto
    with step show ?thesis by auto
  qed
qed

lemma accumulate_final:
  "truthy (dict_get body ''done'' (JBool False)) \<Longrightarrow> accumulate out msg body = Inr (out, msg)"
  by (auto simp: accumulate_def dict_get_def split: option.splits)

lemma chat_lines_final:
  "final_frame body \<Longrightarrow>
   chat_lines out msg (body # lines) =
     (case msg of None \<Rightarrow> Inl (UnboundLocalError ''message'') | Some m \<Rightarrow> Inr (JStr out))"
  by (simp add: final_frame_def accumulate_final getitem_setitem split: option.splits)

lemma chat_lines_value:
  "chat_lines out msg frames = Inr v \<Longrightarrow> v = JNull \<or> (\<exists>s. v = JStr s)"
proof (induction frames arbitrary: out msg)
  case Nil
  then show ?case by simp
next
  case (Cons b rest)
  then show ?case
    by (auto simp: getitem_setitem split: if_splits sum.splits option.splits prod.splits)
qed

lemma chat_lines_needs_fragment:
  "chat_lines out msg frames = Inr (JStr s) \<Longrightarrow>
   \<exists>pre d post. frames = pre @ d # post \<and> truthy (dict_get d ''done'' (JBool False)) \<and>
     (msg = None \<longrightarrow> (\<exists>f\<in>set pre. dict_get f ''done'' JNull = JBool False))"
proof (induction frames arbitrary: out msg)
  case Nil
  then show ?case by simp
next
  case (Cons b rest)
  show ?case
  proof (cases "truthy (dict_get b ''done'' (JBool False))")
    case True
    with Cons.prems have "msg \<noteq> None"
      by (auto simp: accumulate_final split: if_splits sum.splits option.splits)
    with True show ?thesis by (intro exI [of _ "[]"] exI [of _ b] exI [of _ rest]) simp
  next
    case False
    from Cons.prems False obtain out' msg' where
      acc: "accumulate out msg b = Inr (out', msg')"
      and rec: "chat_lines out' msg' rest = Inr (JStr s)"
      by (auto split: if_splits sum.splits option.splits prod.splits)
    from Cons.IH [OF rec] obtain pre d post where
      split: "rest = pre @ d # post" "truthy (dict_get d ''done'' (JBool False))"
      and imp: "msg' = None \<longrightarrow> (\<exists>f\<in>set pre. dict_get f ''done'' JNull = JBool False)"
      by blast
    have "msg = None \<longrightarrow> (\<exists>f\<in>set (b # pre). dict_get f ''done'' JNull = JBool False)"
    proof (cases "dict_get b ''done'' JNull = JBool False")
      case True
      then show ?thesis by simp
    next
      case nf: False
      with acc have "msg' = msg" by (simp add: accumulate_def)
      with imp show ?thesis by auto
    qed
    with split show ?thesis
      by (intro exI [of _ "b # pre"] exI [of _ d] exI [of _ post]) simp
  qed
qed



lemma raise_for_status_ok:
  "code < 400 \<or> 600 \<le> code \<Longrightarrow> raise_for_status \<lparr>status_code = code, iter_lines = frames\<rparr> = Inr ()"
  by (auto simp: raise_for_status_def)

lemma chat_result:
  "code < 400 \<or> 600 \<le> code \<Longrightarrow>
   snd (chat (answering \<lparr>status_code = code, iter_lines = frames\<rparr>) messages) = chat_lines [] None frames"
  by (simp add: chat_def answering_def raise_for_status_ok Let_def)

lemma accumulate_output:
  assumes "accumulate out msg body = Inr (out', msg')"
  shows "out' = out @ (if done_is_False body then fragment body else [])"
proof (cases "done_is_False body")
  case False
  with assms show ?thesis by (simp add: accumulate_def done_is_False_def)
next
  case True
  then have d: "dict_get body ''done'' JNull = JBool False" by (simp add: done_is_False_def)
  show ?thesis
  proof (cases "dict_get body ''message'' (JStr [])")
    case (JObj m)
    then have mm: "map_of body ''message'' = Some (JObj m)"
      by (simp add: dict_get_def split: option.splits)
    show ?thesis
    proof (cases "dict_get m ''content'' (JStr [])")
      case (JStr c)
      then have "fragment body = c"
        using mm by (simp add: fragment_def dict_get_def split: option.splits)
      moreover from assms d JObj JStr have "out' = out @ c" by (simp add: accumulate_def)
      ultimately show ?thesis using True by simp
    qed (use assms d JObj in \<open>simp_all add: accumulate_def\<close>)
  qed (use assms d in \<open>simp_all add: accumulate_def\<close>)
qed

lemma chat_lines_content:
  "chat_lines out msg frames = Inr (JStr s) \<Longrightarrow>
   \<exists>pre d post. frames = pre @ d # post
     \<and> truthy (dict_get d ''done'' (JBool False))
     \<and> (\<forall>f\<in>set pre. \<not> truthy (dict_get f ''done'' (JBool False)))
     \<and> s = out @ concat (map fragment (filter done_is_False pre))"
proof (induction frames arbitrary: out msg)
  case Nil
  then show ?case by simp
next
  case (Cons b rest)
  show ?case
  proof (cases "truthy (dict_get b ''done'' (JBool False))")
    case True
    with Cons.prems have "s = out"
      by (auto simp: accumulate_final getitem_setitem split: if_splits sum.splits option.splits)
    with True show ?thesis by (intro exI [of _ "[]"] exI [of _ b] exI [of _ rest]) simp
  next
    case False
    from Cons.prems False obtain out' msg' where
      acc: "accumulate out msg b = Inr (out', msg')"
      and rec: "chat_lines out' msg' rest = Inr (JStr s)"
      by (auto split: if_splits sum.splits option.splits prod.splits)
    from Cons.IH [OF rec] obtain pre d post where
      sp: "rest = pre @ d # post" "truthy (dict_get d ''done'' (JBool False))"
        "\<forall>f\<in>set pre. \<not> truthy (dict_get f ''done'' (JBool False))"
        "s = out' @ concat (map fragment (filter done_is_False pre))"
      by blast
    from accumulate_output [OF acc] sp(4)
    have "s = out @ concat (map fragment (filter done_is_False (b # pre)))" by simp
    with sp(1-3) False show ?thesis
      by (intro exI [of _ "b # pre"] exI [of _ d] exI [of _ post]) simp
  qed
qed

lemma chat_result_lines:
  "snd (chat post messages) = Inr v \<Longrightarrow>
   chat_lines [] None (iter_lines (post chat_url
      (JObj [(''model'', JStr chat_model), (''messages'', JArr (system_message # messages)),
             (''stream'', JBool True)]))) = Inr v"
  by (auto simp: chat_def Let_def list_insert_def split: sum.splits)

lemma chat_accumulates:
  assumes "frames \<noteq> []" and "\<forall>f\<in>set frames. fragment_frame f" and "final_frame final"
    and "code < 400 \<or> 600 \<le> code"
  shows "snd (chat (answering \<lparr>status_code = code, iter_lines = frames @ final # later\<rparr>) messages)
         = Inr (JStr (concat (map fragment frames)))"
proof -
  from chat_lines_fragments [OF assms(2) assms(1), of "[]" None "final # later"] obtain m where
    "chat_lines [] None (frames @ final # later) =
     chat_lines (concat (map fragment frames)) (Some m) (final # later)" by auto
  then have "chat_lines [] None (frames @ final # later) = Inr (JStr (concat (map fragment frames)))"
    by (simp only: chat_lines_final [OF assms(3)] option.case)
  then show ?thesis by (simp only: chat_result [OF assms(4)])
qed

lemma chat_hello:
  "snd (chat (answering \<lparr>status_code = 200, iter_lines =
       [[(''message'', JObj [(''role'', JStr ''assistant''), (''content'', JStr ''Hel'')]), (''done'', JBool False)],
        [(''message'', JObj [(''role'', JStr ''assistant''), (''content'', JStr ''lo'')]), (''done'', JBool False)],
        [(''message'', JObj [(''role'', JStr ''assistant''), (''content'', JStr [])]), (''done'', JBool True)]]\<rparr>)
     messages)
   = Inr (JStr ''Hello'')"
  by (simp add: chat_def answering_def raise_for_status_def Let_def dict_contains_def
      accumulate_def dict_get_def getitem_setitem)

text \<open>
  C1 (as stated, refuted): on the stream \<open>Hel\<close>, \<open>lo\<close>, done, which \<open>chat\<close> consumes to
  completion, the value returned is the text \<open>Hello\<close> and not a dict.
\<close>

theorem chat_returns_record_counterexample:
  "\<not> returns_dict (snd (chat (answering \<lparr>status_code = 200, iter_lines =
       [[(''message'', JObj [(''role'', JStr ''assistant''), (''content'', JStr ''Hel'')]), (''done'', JBool False)],
        [(''message'', JObj [(''role'', JStr ''assistant''), (''content'', JStr ''lo'')]), (''done'', JBool False)],
        [(''message'', JObj [(''role'', JStr ''assistant''), (''content'', JStr [])]), (''done'', JBool True)]]\<rparr>)
     [JObj [(''role'', JStr ''user''), (''content'', JStr ''hi'')]]))"
  by (simp add: chat_hello)

text \<open>
  C1 (amended): whenever \<open>chat\<close> returns a value other than \<open>None\<close>, that is, whenever it
  returns at a frame whose \<open>done\<close> is true, the value is a bare string, not a role-tagged
  record, and it is the accumulated content: the concatenation, in arrival order, of the
  \<open>message.content\<close> fragments of the frames whose \<open>done\<close> is \<open>False\<close> that come before
  the first frame whose \<open>done\<close> is true.
\<close>

theorem chat_returns_text:
  assumes "snd (chat post messages) = Inr v" and "v \<noteq> JNull"
  shows "\<not> is_dict v
     \<and> (\<exists>pre d later.
          iter_lines (post chat_url
            (JObj [(''model'', JStr chat_model), (''messages'', JArr (system_message # messages)),
                   (''stream'', JBool True)])) = pre @ d # later
        \<and> truthy (dict_get d ''done'' (JBool False))
        \<and> (\<forall>f\<in>set pre. \<not> truthy (dict_get f ''done'' (JBool False)))
        \<and> v = JStr (concat (map fragment (filter done_is_False pre))))"
proof -
  note r = chat_result_lines [OF assms(1)]
  from chat_lines_value [OF r] assms(2) obtain s where v: "v = JStr s" by auto
  from chat_lines_content [OF r [unfolded v]] v show ?thesis by auto
qed

theorem chat_returns_text_witness:
  "snd (chat (answering \<lparr>status_code = 200, iter_lines =
       [[(''message'', JObj [(''role'', JStr ''assistant''), (''content'', JStr ''Hel'')]), (''done'', JBool False)],
        [(''message'', JObj [(''role'', JStr ''assistant''), (''content'', JStr ''lo'')]), (''done'', JBool False)],
        [(''message'', JObj [(''role'', JStr ''assistant''), (''content'', JStr [])]), (''done'', JBool True)]]\<rparr>)
     [JObj [(''role'', JStr ''user''), (''content'', JStr ''hi'')]]) = Inr (JStr ''Hello'')
   \<and> JStr ''Hello'' \<noteq> JNull \<and> \<not> is_dict (JStr ''Hello'')
   \<and> (\<exists>pre d later.
         [[(''message'', JObj [(''role'', JStr ''assistant''), (''content'', JStr ''Hel'')]), (''done'', JBool False)],
          [(''message'', JObj [(''role'', JStr ''assistant''), (''content'', JStr ''lo'')]), (''done'', JBool False)],
          [(''message'', JObj [(''role'', JStr ''assistant''), (''content'', JStr [])]), (''done'', JBool True)]]
           = pre @ d # later
        \<and> truthy (dict_get d ''done'' (JBool False))
        \<and> (\<forall>f\<in>set pre. \<not> truthy (dict_get f ''done'' (JBool False)))
        \<and> JStr ''Hello'' = JStr (concat (map fragment (filter done_is_False pre))))"
proof -
  have ne: "JStr ''Hello'' \<noteq> JNull" by simp
  from chat_returns_text [OF chat_hello ne] chat_hello ne show ?thesis
    by (simp only: answering_def http_response.simps) blast
qed

text \<open>
  C2: the claim includes the stream with no \<open>done:false\<close> frame at all, for which it
  promises the empty content. On that stream the code raises instead: \<open>message\<close> is
  assigned only in the \<open>done is False\<close> branch and is unbound at line 38.
\<close>

theorem chat_no_fragment_unbound:
  "snd (chat (answering \<lparr>status_code = 200, iter_lines =
       [[(''message'', JObj [(''role'', JStr ''assistant''), (''content'', JStr [])]), (''done'', JBool True)]]\<rparr>)
     [JObj [(''role'', JStr ''user''), (''content'', JStr ''hi'')]])
   = Inl (UnboundLocalError ''message'')"
  by (simp add: chat_def answering_def raise_for_status_def Let_def dict_contains_def
      accumulate_def dict_get_def)



text \<open>
  C4: \<open>chat\<close> puts the fixed system message in front of the caller's messages, in the
  caller's own list, before the request goes out: the one request issued carries the
  extended list, and the caller's list holds it after the call, whatever the outcome.
\<close>

theorem chat_inserts_system_message:
  "caller_messages (fst (chat post messages)) = system_message # messages
   \<and> posted (fst (chat post messages)) =
       [(chat_url, JObj [(''model'', JStr chat_model),
                         (''messages'', JArr (system_message # messages)),
                         (''stream'', JBool True)])]"
  by (simp add: chat_def list_insert_def Let_def)

theorem chat_inserts_system_message_witness:
  "caller_messages (fst (chat (answering \<lparr>status_code = 500, iter_lines = []\<rparr>)
       [JObj [(''role'', JStr ''user''), (''content'', JStr ''hi'')]]))
     = [system_message, JObj [(''role'', JStr ''user''), (''content'', JStr ''hi'')]]"
  using chat_inserts_system_message
    [of "answering \<lparr>status_code = 500, iter_lines = []\<rparr>"
        "[JObj [(''role'', JStr ''user''), (''content'', JStr ''hi'')]]"]
  by simp

text \<open>
  C10: when the first frame is already final (no \<open>error\<close> field, \<open>done\<close> true), \<open>chat\<close>
  raises UnboundLocalError for \<open>message\<close>; and whenever \<open>chat\<close> returns a reply, a frame
  whose \<open>done\<close> is \<open>False\<close> was processed before the frame whose \<open>done\<close> is true.
\<close>

theorem chat_done_first:
  assumes "code < 400 \<or> 600 \<le> code"
  shows "(final_frame body \<longrightarrow>
            snd (chat (answering \<lparr>status_code = code, iter_lines = body # later\<rparr>) messages)
              = Inl (UnboundLocalError ''message''))
     \<and> (snd (chat (answering \<lparr>status_code = code, iter_lines = frames\<rparr>) messages) = Inr v \<and> v \<noteq> JNull \<longrightarrow>
            (\<exists>pre d post. frames = pre @ d # post
               \<and> truthy (dict_get d ''done'' (JBool False))
               \<and> (\<exists>f\<in>set pre. dict_get f ''done'' JNull = JBool False)))"
proof (intro conjI impI)
  assume "final_frame body"
  from chat_lines_final [OF this, of "[]" None later]
  show "snd (chat (answering \<lparr>status_code = code, iter_lines = body # later\<rparr>) messages)
      = Inl (UnboundLocalError ''message'')"
    by (simp only: chat_result [OF assms] option.case)
next
  assume "snd (chat (answering \<lparr>status_code = code, iter_lines = frames\<rparr>) messages) = Inr v \<and> v \<noteq> JNull"
  then have r: "chat_lines [] None frames = Inr v" and n: "v \<noteq> JNull"
    by (simp_all add: chat_result [OF assms])
  from chat_lines_value [OF r] n obtain s where "v = JStr s" by auto
  with r have "chat_lines [] None frames = Inr (JStr s)" by simp
  from chat_lines_needs_fragment [OF this] show
    "\<exists>pre d post. frames = pre @ d # post
       \<and> truthy (dict_get d ''done'' (JBool False))
       \<and> (\<exists>f\<in>set pre. dict_get f ''done'' JNull = JBool False)" by simp
qed

theorem chat_done_first_witness:
  "snd (chat (answering \<lparr>status_code = 200, iter_lines =
        [(''model'', JStr ''llama3.1:latest''), (''done'', JBool True)] # []\<rparr>) [])
     = Inl (UnboundLocalError ''message'')
   \<and> (\<exists>pre d post.
        [[(''message'', JObj [(''role'', JStr ''assistant''), (''content'', JStr ''Hel'')]), (''done'', JBool False)],
         [(''message'', JObj [(''role'', JStr ''assistant''), (''content'', JStr ''lo'')]), (''done'', JBool False)],
         [(''message'', JObj [(''role'', JStr ''assistant''), (''content'', JStr [])]), (''done'', JBool True)]]
          = pre @ d # post
        \<and> truthy (dict_get d ''done'' (JBool False))
        \<and> (\<exists>f\<in>set pre. dict_get f ''done'' JNull = JBool False))"
proof -
  have c: "(200::nat) < 400 \<or> 600 \<le> (200::nat)" by simp
  have f: "final_frame [(''model'', JStr ''llama3.1:latest''), (''done'', JBool True)]"
    by (simp add: final_frame_def dict_contains_def dict_get_def)
  have n: "JStr ''Hello'' \<noteq> JNull" by simp
  from chat_done_first [OF c, of "[(''model'', JStr ''llama3.1:latest''), (''done'', JBool True)]" "[]" "[]"] f
  have first: "snd (chat (answering \<lparr>status_code = 200, iter_lines =
        [(''model'', JStr ''llama3.1:latest''), (''done'', JBool True)] # []\<rparr>) [])
     = Inl (UnboundLocalError ''message'')" by blast
  from chat_done_first [OF c, of _ _ "[]" _ "JStr ''Hello''"] chat_hello [of "[]"] n
  have "\<exists>pre d post.
        [[(''message'', JObj [(''role'', JStr ''assistant''), (''content'', JStr ''Hel'')]), (''done'', JBool False)],
         [(''message'', JObj [(''role'', JStr ''assistant''), (''content'', JStr ''lo'')]), (''done'', JBool False)],
         [(''message'', JObj [(''role'', JStr ''assistant''), (''content'', JStr [])]), (''done'', JBool True)]]
          = pre @ d # post
        \<and> truthy (dict_get d ''done'' (JBool False))
        \<and> (\<exists>f\<in>set pre. dict_get f ''done'' JNull = JBool False)" by blast
  with first show ?thesis by (rule conjI)
qed

section \<open>Thread history and the bot service\<close>

text \<open>
  C7 (as stated, refuted): the platform call raises, with an exception that is not a
  SlackApiError, and \<open>fetch_thread_message\<close> lets it through instead of returning the
  empty list.
\<close>

theorem fetch_thread_message_fallback_counterexample:
  "fetch_thread_message render_none (replying (Inl (OtherError ''TimeoutError'')))
     (JStr ''C1'') (JStr ''17.0'') 50 = Inl (OtherError ''TimeoutError'')"
  by (simp add: fetch_thread_message_def replying_def except_SlackApiError_def)

text \<open>
  C7 (amended): whenever the platform call raises a SlackApiError whose response carries
  a true \<open>error\<close> value, \<open>fetch_thread_message\<close> returns the empty list instead of
  raising, for every channel, thread timestamp and limit; an exception of any other
  class is raised on to the caller.
\<close>

theorem fetch_thread_message_fallback:
  "(conversations_replies_call channel thread_ts max_messages JNull = Inl (SlackApiError err)
      \<and> truthy err \<longrightarrow>
      fetch_thread_message render conversations_replies_call channel thread_ts max_messages = Inr [])
   \<and> (conversations_replies_call channel thread_ts max_messages JNull = Inl e
      \<and> (\<forall>err'. e \<noteq> SlackApiError err') \<longrightarrow>
      fetch_thread_message render conversations_replies_call channel thread_ts max_messages = Inl e)"
proof (intro conjI impI)
  assume "conversations_replies_call channel thread_ts max_messages JNull = Inl (SlackApiError err)
      \<and> truthy err"
  then show "fetch_thread_message render conversations_replies_call channel thread_ts max_messages = Inr []"
    by (simp add: fetch_thread_message_def except_SlackApiError_def)
next
  assume a: "conversations_replies_call channel thread_ts max_messages JNull = Inl e
      \<and> (\<forall>err'. e \<noteq> SlackApiError err')"
  then have "except_SlackApiError (Inl e) [] = (Inl e :: py_error + json list)"
    by (cases e) (simp_all add: except_SlackApiError_def)
  with a show "fetch_thread_message render conversations_replies_call channel thread_ts max_messages = Inl e"
    by (simp add: fetch_thread_message_def)
qed

theorem fetch_thread_message_fallback_witness:
  "fetch_thread_message render_none (replying (Inl (SlackApiError (JStr ''thread_not_found''))))
     (JStr ''C1'') (JStr ''17.0'') 50 = Inr []
   \<and> fetch_thread_message render_none (replying (Inl (HTTPError 503)))
     (JStr ''C1'') (JStr ''17.0'') 50 = Inl (HTTPError 503)"
proof -
  have r: "replying (Inl (SlackApiError (JStr ''thread_not_found''))) (JStr ''C1'') (JStr ''17.0'') 50 JNull
      = Inl (SlackApiError (JStr ''thread_not_found''))"
    by (simp add: replying_def)
  have t: "truthy (JStr ''thread_not_found'')" by simp
  have r': "replying (Inl (HTTPError 503)) (JStr ''C1'') (JStr ''17.0'') 50 JNull = Inl (HTTPError 503)"
    by (simp add: replying_def)
  have n: "\<forall>err'. HTTPError 503 \<noteq> SlackApiError err'" by simp
  from fetch_thread_message_fallback
    [where conversations_replies_call = "replying (Inl (SlackApiError (JStr ''thread_not_found'')))"
       and channel = "JStr ''C1''" and thread_ts = "JStr ''17.0''" and max_messages = 50
       and err = "JStr ''thread_not_found''" and render = render_none] r t
  have a: "fetch_thread_message render_none (replying (Inl (SlackApiError (JStr ''thread_not_found''))))
     (JStr ''C1'') (JStr ''17.0'') 50 = Inr []" by blast
  from fetch_thread_message_fallback
    [where conversations_replies_call = "replying (Inl (HTTPError 503))"
       and channel = "JStr ''C1''" and thread_ts = "JStr ''17.0''" and max_messages = 50
       and e = "HTTPError 503" and render = render_none] r' n
  have b: "fetch_thread_message render_none (replying (Inl (HTTPError 503)))
     (JStr ''C1'') (JStr ''17.0'') 50 = Inl (HTTPError 503)" by blast
  from a b show ?thesis by (rule conjI)
qed

lemma handle_thread_trace:
  "fst (handle_thread env event channel) =
     (let parent_ts = dict_get event ''thread_ts'' (JStr []) in
      case fetch_thread_message (str_of env) (conversations_replies env) channel parent_ts 50 of
        Inl e \<Rightarrow> [Fetch_thread_message channel parent_ts]
      | Inr history \<Rightarrow>
          (case snd (chat (llm_post env) history) of
             Inl e \<Rightarrow> [Fetch_thread_message channel parent_ts, Chat history]
           | Inr response \<Rightarrow>
               (case chat_postMessage env channel response parent_ts of
                  Inl e \<Rightarrow> [Fetch_thread_message channel parent_ts, Chat history,
                            Chat_postMessage channel response parent_ts]
                | Inr ok \<Rightarrow> [Fetch_thread_message channel parent_ts, Chat history,
                            Chat_postMessage channel response parent_ts,
                            Remove_reaction channel (dict_get event ''ts'' (JStr [])) ''eyes''])))"
  by (simp add: handle_thread_def Let_def split: sum.splits)

lemma handle_messages_trace:
  assumes "dict_get body ''event'' (JObj []) = JObj event"
  shows "fst (handle_messages env body) =
     (if dict_contains event ''thread_ts''
      then fst (handle_thread env event (dict_get event ''channel'' (JStr [])))
      else [])"
  using assms by (simp add: handle_messages_def Let_def)

lemma handle_thread_outcome:
  "snd (handle_thread env event channel) =
     (let parent_ts = dict_get event ''thread_ts'' (JStr []) in
      case fetch_thread_message (str_of env) (conversations_replies env) channel parent_ts 50 of
        Inl e \<Rightarrow> Inl e
      | Inr history \<Rightarrow>
          (case snd (chat (llm_post env) history) of
             Inl e \<Rightarrow> Inl e
           | Inr response \<Rightarrow>
               (case chat_postMessage env channel response parent_ts of
                  Inl e \<Rightarrow> Inl e
                | Inr ok \<Rightarrow>
                    (case remove_reaction (reactions_remove env) channel
                            (dict_get event ''ts'' (JStr [])) ''eyes'' of
                       Inl e \<Rightarrow> Inl e
                     | Inr removed \<Rightarrow> Inr ()))))"
  by (simp add: handle_thread_def Let_def split: sum.splits)

lemma handle_messages_outcome:
  assumes "dict_get body ''event'' (JObj []) = JObj event"
  shows "snd (handle_messages env body) =
     (if dict_contains event ''thread_ts''
      then snd (handle_thread env event (dict_get event ''channel'' (JStr [])))
      else Inr ())"
  using assms by (simp add: handle_messages_def Let_def)

text \<open>
  C5 (as stated, refuted): the event carries \<open>thread_ts\<close>, the LLM endpoint answers with
  status 500, \<open>chat\<close> raises, and the handler ends after the fetch and the chat call: no
  message is posted.
\<close>

theorem handle_messages_routing_counterexample:
  "dict_contains [(''channel'', JStr ''C1''), (''ts'', JStr ''18.0''), (''thread_ts'', JStr ''17.0'')] ''thread_ts''
   \<and> fst (handle_messages
       \<lparr>str_of = render_none,
        conversations_replies = replying (Inr [(''messages'', JArr [JObj [(''user'', JStr ''U1''), (''text'', JStr ''hi'')]])]),
        llm_post = answering \<lparr>status_code = 500, iter_lines = []\<rparr>,
        chat_postMessage = acknowledging (Inr JNull),
        reactions_remove = acknowledging (Inr JNull)\<rparr>
       [(''event'', JObj [(''channel'', JStr ''C1''), (''ts'', JStr ''18.0''), (''thread_ts'', JStr ''17.0'')])])
     = [Fetch_thread_message (JStr ''C1'') (JStr ''17.0''),
        Chat [JObj [(''role'', JStr ''user''), (''content'', JStr ''U1: hi'')]]]"
  by (simp add: handle_messages_def handle_thread_def Let_def dict_get_def dict_contains_def
      fetch_thread_message_def except_SlackApiError_def replying_def answering_def
      chat_def raise_for_status_def)

text \<open>
  C5 (amended): for an event without \<open>thread_ts\<close> the handler makes no call at all. For
  an event with \<open>thread_ts\<close> it makes exactly one fetch call, first, and at most one chat
  call and one post; when the fetch returns a history, exactly one chat call on that
  history follows; when the chat call returns a reply, exactly one post of that reply,
  to the same channel and thread, follows. A fetch or a chat call that raises ends the
  handling, with no post.
\<close>

theorem handle_messages_routing:
  assumes "dict_get body ''event'' (JObj []) = JObj event"
  shows "(\<not> dict_contains event ''thread_ts'' \<longrightarrow> fst (handle_messages env body) = [])
   \<and> (dict_contains event ''thread_ts'' \<longrightarrow>
        take 1 (fst (handle_messages env body))
          = [Fetch_thread_message (dict_get event ''channel'' (JStr [])) (dict_get event ''thread_ts'' (JStr []))]
        \<and> length (filter is_fetch (fst (handle_messages env body))) = 1
        \<and> length (filter is_chat (fst (handle_messages env body))) \<le> 1
        \<and> length (filter is_post (fst (handle_messages env body))) \<le> 1)
   \<and> (dict_contains event ''thread_ts'' \<and>
        fetch_thread_message (str_of env) (conversations_replies env)
          (dict_get event ''channel'' (JStr [])) (dict_get event ''thread_ts'' (JStr [])) 50 = Inr history \<longrightarrow>
        take 2 (fst (handle_messages env body))
          = [Fetch_thread_message (dict_get event ''channel'' (JStr [])) (dict_get event ''thread_ts'' (JStr [])),
             Chat history]
        \<and> length (filter is_chat (fst (handle_messages env body))) = 1
        \<and> (snd (chat (llm_post env) history) = Inr response \<longrightarrow>
             take 3 (fst (handle_messages env body))
               = [Fetch_thread_message (dict_get event ''channel'' (JStr [])) (dict_get event ''thread_ts'' (JStr [])),
                  Chat history,
                  Chat_postMessage (dict_get event ''channel'' (JStr [])) response (dict_get event ''thread_ts'' (JStr []))]
             \<and> length (filter is_post (fst (handle_messages env body))) = 1)
        \<and> ((\<exists>e. snd (chat (llm_post env) history) = Inl e) \<longrightarrow>
             filter is_post (fst (handle_messages env body)) = [])
        \<and> (snd (chat (llm_post env) history) = Inl e \<longrightarrow>
             handle_messages env body
               = ([Fetch_thread_message (dict_get event ''channel'' (JStr [])) (dict_get event ''thread_ts'' (JStr [])),
                   Chat history], Inl e)))
   \<and> (dict_contains event ''thread_ts'' \<and>
        fetch_thread_message (str_of env) (conversations_replies env)
          (dict_get event ''channel'' (JStr [])) (dict_get event ''thread_ts'' (JStr [])) 50 = Inl e \<longrightarrow>
        handle_messages env body
          = ([Fetch_thread_message (dict_get event ''channel'' (JStr [])) (dict_get event ''thread_ts'' (JStr []))],
             Inl e))"
  by (auto simp: prod_eq_iff handle_messages_trace [OF assms] handle_messages_outcome [OF assms]
      handle_thread_trace handle_thread_outcome Let_def split: sum.splits)

theorem handle_messages_routing_witness:
  "take 3 (fst (handle_messages
       \<lparr>str_of = render_none,
        conversations_replies = replying (Inr [(''messages'', JArr [JObj [(''user'', JStr ''U1''), (''text'', JStr ''hi'')]])]),
        llm_post = answering \<lparr>status_code = 200, iter_lines =
          [[(''message'', JObj [(''role'', JStr ''assistant''), (''content'', JStr ''Hel'')]), (''done'', JBool False)],
           [(''message'', JObj [(''role'', JStr ''assistant''), (''content'', JStr ''lo'')]), (''done'', JBool False)],
           [(''message'', JObj [(''role'', JStr ''assistant''), (''content'', JStr [])]), (''done'', JBool True)]]\<rparr>,
        chat_postMessage = acknowledging (Inr JNull),
        reactions_remove = acknowledging (Inr JNull)\<rparr>
       [(''event'', JObj [(''channel'', JStr ''C1''), (''ts'', JStr ''18.0''), (''thread_ts'', JStr ''17.0'')])]))
     = [Fetch_thread_message (JStr ''C1'') (JStr ''17.0''),
        Chat [JObj [(''role'', JStr ''user''), (''content'', JStr ''U1: hi'')]],
        Chat_postMessage (JStr ''C1'') (JStr ''Hello'') (JStr ''17.0'')]
   \<and> handle_messages
       \<lparr>str_of = render_none,
        conversations_replies = replying (Inl (OtherError ''TimeoutError'')),
        llm_post = answering \<lparr>status_code = 200, iter_lines = []\<rparr>,
        chat_postMessage = acknowledging (Inr JNull),
        reactions_remove = acknowledging (Inr JNull)\<rparr>
       [(''event'', JObj [(''channel'', JStr ''C1''), (''ts'', JStr ''18.0''), (''thread_ts'', JStr ''17.0'')])]
     = ([Fetch_thread_message (JStr ''C1'') (JStr ''17.0'')], Inl (OtherError ''TimeoutError''))"
proof -
  let ?event = "[(''channel'', JStr ''C1''), (''ts'', JStr ''18.0''), (''thread_ts'', JStr ''17.0'')]"
  let ?hello = "\<lparr>status_code = 200, iter_lines =
          [[(''message'', JObj [(''role'', JStr ''assistant''), (''content'', JStr ''Hel'')]), (''done'', JBool False)],
           [(''message'', JObj [(''role'', JStr ''assistant''), (''content'', JStr ''lo'')]), (''done'', JBool False)],
           [(''message'', JObj [(''role'', JStr ''assistant''), (''content'', JStr [])]), (''done'', JBool True)]]\<rparr>"
  let ?env = "\<lparr>str_of = render_none,
        conversations_replies = replying (Inr [(''messages'', JArr [JObj [(''user'', JStr ''U1''), (''text'', JStr ''hi'')]])]),
        llm_post = answering ?hello,
        chat_postMessage = acknowledging (Inr JNull),
        reactions_remove = acknowledging (Inr JNull)\<rparr>"
  let ?env' = "\<lparr>str_of = render_none,
        conversations_replies = replying (Inl (OtherError ''TimeoutError'')),
        llm_post = answering \<lparr>status_code = 200, iter_lines = []\<rparr>,
        chat_postMessage = acknowledging (Inr JNull),
        reactions_remove = acknowledging (Inr JNull)\<rparr>"
  let ?history = "[JObj [(''role'', JStr ''user''), (''content'', JStr ''U1: hi'')]]"
  have ev: "dict_get [(''event'', JObj ?event)] ''event'' (JObj []) = JObj ?event"
    by (simp add: dict_get_def)
  have ts: "dict_contains ?event ''thread_ts''" by (simp add: dict_contains_def)
  have ch: "dict_get ?event ''channel'' (JStr []) = JStr ''C1''" by (simp add: dict_get_def)
  have pt: "dict_get ?event ''thread_ts'' (JStr []) = JStr ''17.0''" by (simp add: dict_get_def)
  have fe: "fetch_thread_message (str_of ?env) (conversations_replies ?env)
      (dict_get ?event ''channel'' (JStr [])) (dict_get ?event ''thread_ts'' (JStr [])) 50 = Inr ?history"
    by (simp add: fetch_thread_message_def except_SlackApiError_def replying_def dict_get_def)
  have lp: "llm_post ?env = answering ?hello" by simp
  have re: "snd (chat (llm_post ?env) ?history) = Inr (JStr ''Hello'')"
    unfolding lp by (rule chat_hello)
  from handle_messages_routing
    [OF ev, where env = ?env and history = ?history and response = "JStr ''Hello''"] ts fe re
  have "take 3 (fst (handle_messages ?env [(''event'', JObj ?event)]))
      = [Fetch_thread_message (dict_get ?event ''channel'' (JStr [])) (dict_get ?event ''thread_ts'' (JStr [])),
         Chat ?history,
         Chat_postMessage (dict_get ?event ''channel'' (JStr [])) (JStr ''Hello'') (dict_get ?event ''thread_ts'' (JStr []))]"
    by blast
  then have a: "take 3 (fst (handle_messages ?env [(''event'', JObj ?event)]))
      = [Fetch_thread_message (JStr ''C1'') (JStr ''17.0''), Chat ?history,
         Chat_postMessage (JStr ''C1'') (JStr ''Hello'') (JStr ''17.0'')]"
    by (simp only: ch pt)
  have fe': "fetch_thread_message (str_of ?env') (conversations_replies ?env')
      (dict_get ?event ''channel'' (JStr [])) (dict_get ?event ''thread_ts'' (JStr [])) 50
        = Inl (OtherError ''TimeoutError'')"
    by (simp add: fetch_thread_message_def except_SlackApiError_def replying_def)
  from handle_messages_routing
    [OF ev, where env = ?env' and e = "OtherError ''TimeoutError''"] ts fe'
  have "handle_messages ?env' [(''event'', JObj ?event)]
      = ([Fetch_thread_message (dict_get ?event ''channel'' (JStr [])) (dict_get ?event ''thread_ts'' (JStr []))],
         Inl (OtherError ''TimeoutError''))"
    by blast
  then have b: "handle_messages ?env' [(''event'', JObj ?event)]
      = ([Fetch_thread_message (JStr ''C1'') (JStr ''17.0'')], Inl (OtherError ''TimeoutError''))"
    by (simp only: ch pt)
  from a b show ?thesis by (rule conjI)
qed

text \<open>
  C6 (as stated, refuted): the posted body contains a \<open>challenge\<close> field, the empty
  string, and the route hands it to the event router instead of echoing it.
\<close>

theorem index_challenge_counterexample:
  "dict_contains [(''challenge'', JStr [])] ''challenge''
   \<and> index (dispatching ([Chat []], ''200 OK'')) [(''challenge'', JStr [])]
       = ([Chat []], Handled ''200 OK'')"
  by (simp add: index_def dispatching_def dict_contains_def dict_get_def)

text \<open>
  C6 (amended): for every posted body whose \<open>challenge\<close> field holds a true value (not
  empty, zero, \<open>false\<close> or \<open>null\<close>) the route answers exactly \<open>{"challenge": value}\<close> and
  the event router is not run, so no call is made; a body without a \<open>challenge\<close> field,
  or with one that holds a false value, goes to the event router.
\<close>

theorem index_challenge:
  "(map_of data ''challenge'' = Some v \<and> truthy v \<longrightarrow>
      index handler_handle data = ([], Jsonify (JObj [(''challenge'', v)])))
   \<and> (map_of data ''challenge'' = None \<or> (map_of data ''challenge'' = Some v \<and> \<not> truthy v) \<longrightarrow>
      index handler_handle data = (fst (handler_handle data), Handled (snd (handler_handle data))))"
  by (auto simp: index_def dict_get_def split: prod.splits)

theorem index_challenge_witness:
  "index (dispatching ([Chat []], ''200 OK'')) [(''challenge'', JStr ''abc123'')]
     = ([], Jsonify (JObj [(''challenge'', JStr ''abc123'')]))
   \<and> index (dispatching ([Chat []], ''200 OK'')) [(''type'', JStr ''event_callback'')]
     = ([Chat []], Handled ''200 OK'')"
proof -
  have m: "map_of [(''challenge'', JStr ''abc123'')] ''challenge'' = Some (JStr ''abc123'')" by simp
  have t: "truthy (JStr ''abc123'')" by simp
  have e: "map_of [(''type'', JStr ''event_callback'')] ''challenge'' = None" by simp
  from index_challenge [of "[(''challenge'', JStr ''abc123'')]" "JStr ''abc123''"
      "dispatching ([Chat []], ''200 OK'')"] m t
  have a: "index (dispatching ([Chat []], ''200 OK'')) [(''challenge'', JStr ''abc123'')]
      = ([], Jsonify (JObj [(''challenge'', JStr ''abc123'')]))" by blast
  from index_challenge [of "[(''type'', JStr ''event_callback'')]" JNull
      "dispatching ([Chat []], ''200 OK'')"] e
  have "index (dispatching ([Chat []], ''200 OK'')) [(''type'', JStr ''event_callback'')]
      = (fst (dispatching ([Chat []], ''200 OK'') [(''type'', JStr ''event_callback'')]),
         Handled (snd (dispatching ([Chat []], ''200 OK'') [(''type'', JStr ''event_callback'')])))"
    by blast
  then have b: "index (dispatching ([Chat []], ''200 OK'')) [(''type'', JStr ''event_callback'')]
      = ([Chat []], Handled ''200 OK'')" by (simp add: dispatching_def)
  from a b show ?thesis by (rule conjI)
qed

section \<open>The tool-schema generator\<close>

lemma add_description:
  "description add ''Adds two numbers and returns the result'' =
     JObj [(''type'', JStr ''function''),
           (''function'', JObj
              [(''name'', JStr ''add''),
               (''description'', JStr ''Adds two numbers and returns the result''),
               (''parameters'', JObj
                  [(''type'', JStr ''object''),
                   (''properties'', JObj [(''a'', JStr ''<class 'int'>''), (''b'', JStr ''<class 'int'>'')])]),
               (''input_params'', JArr
                  [JObj [(''name'', JStr ''a''), (''type'', JStr ''<class 'int'>'')],
                   JObj [(''name'', JStr ''b''), (''type'', JStr ''<class 'int'>'')]]),
               (''output_type'', JStr ''<class 'int'>'')])]"
  by (simp add: description_def add_def add_untagged_def aitool_def param_info_def
      properties_def dict_setitem_def dict_get_def)

text \<open>
  C8: for the tagged example \<open>add\<close> the generator returns the descriptor as JSON text
  indented by two spaces, given here in full; in the descriptor, \<open>function.name\<close> is
  \<open>add\<close>, \<open>function.description\<close> is the tag's text, \<open>function.parameters.properties\<close>
  maps \<open>a\<close> and \<open>b\<close> to \<open><class 'int'>\<close>, and \<open>function.output_type\<close> is
  \<open><class 'int'>\<close>.
\<close>

theorem generate_json_description_add:
  \<open>generate_json_description add = Inr (dumps (description add ''Adds two numbers and returns the result'') 2)
   \<and> at_path (description add ''Adds two numbers and returns the result'') [''function'', ''name'']
       = Some (JStr ''add'')
   \<and> at_path (description add ''Adds two numbers and returns the result'') [''function'', ''description'']
       = Some (JStr ''Adds two numbers and returns the result'')
   \<and> at_path (description add ''Adds two numbers and returns the result'') [''function'', ''parameters'', ''properties'']
       = Some (JObj [(''a'', JStr ''<class 'int'>''), (''b'', JStr ''<class 'int'>'')])
   \<and> at_path (description add ''Adds two numbers and returns the result'') [''function'', ''output_type'']
       = Some (JStr ''<class 'int'>'')
   \<and> generate_json_description add = Inr
       (''{\<newline>''
        @ ''  "type": "function",\<newline>''
        @ ''  "function": {\<newline>''
        @ ''    "name": "add",\<newline>''
        @ ''    "description": "Adds two numbers and returns the result",\<newline>''
        @ ''    "parameters": {\<newline>''
        @ ''      "type": "object",\<newline>''
        @ ''      "properties": {\<newline>''
        @ ''        "a": "<class 'int'>",\<newline>''
        @ ''        "b": "<class 'int'>"\<newline>''
        @ ''      }\<newline>''
        @ ''    },\<newline>''
        @ ''    "input_params": [\<newline>''
        @ ''      {\<newline>''
        @ ''        "name": "a",\<newline>''
        @ ''        "type": "<class 'int'>"\<newline>''
        @ ''      },\<newline>''
        @ ''      {\<newline>''
        @ ''        "name": "b",\<newline>''
        @ ''        "type": "<class 'int'>"\<newline>''
        @ ''      }\<newline>''
        @ ''    ],\<newline>''
        @ ''    "output_type": "<class 'int'>"\<newline>''
        @ ''  }\<newline>''
        @ ''}'')\<close>
proof -
  have g: "generate_json_description add
      = Inr (dumps (description add ''Adds two numbers and returns the result'') 2)"
    by (simp add: generate_json_description_def add_def aitool_def)
  have t: \<open>dumps (description add ''Adds two numbers and returns the result'') 2 =
        ''{\<newline>''
        @ ''  "type": "function",\<newline>''
        @ ''  "function": {\<newline>''
        @ ''    "name": "add",\<newline>''
        @ ''    "description": "Adds two numbers and returns the result",\<newline>''
        @ ''    "parameters": {\<newline>''
        @ ''      "type": "object",\<newline>''
        @ ''      "properties": {\<newline>''
        @ ''        "a": "<class 'int'>",\<newline>''
        @ ''        "b": "<class 'int'>"\<newline>''
        @ ''      }\<newline>''
        @ ''    },\<newline>''
        @ ''    "input_params": [\<newline>''
        @ ''      {\<newline>''
        @ ''        "name": "a",\<newline>''
        @ ''        "type": "<class 'int'>"\<newline>''
        @ ''      },\<newline>''
        @ ''      {\<newline>''
        @ ''        "name": "b",\<newline>''
        @ ''        "type": "<class 'int'>"\<newline>''
        @ ''      }\<newline>''
        @ ''    ],\<newline>''
        @ ''    "output_type": "<class 'int'>"\<newline>''
        @ ''  }\<newline>''
        @ ''}''\<close>
    unfolding add_description by code_simp
  show ?thesis
    unfolding g t by (simp add: add_description)
qed

text \<open>
  C9: for a function without the attribute \<open>_aitool_description\<close> the generator raises
  a ValueError whose message names the function, and so returns no descriptor.
\<close>

theorem generate_json_description_untagged:
  assumes "aitool_description func = None"
  shows "generate_json_description func
           = Inl (ValueError (''Function '' @ func_name func @ '' is not tagged with @AITool''))
       \<and> generate_json_description func \<noteq> Inr text"
  using assms by (simp add: generate_json_description_def)

theorem generate_json_description_untagged_witness:
  "generate_json_description add_untagged
     = Inl (ValueError ''Function add is not tagged with @AITool'')"
proof -
  have n: "aitool_description add_untagged = None" by (simp add: add_untagged_def)
  from generate_json_description_untagged [OF n] show ?thesis
    by (simp add: add_untagged_def)
qed

end
